theory Spec2Isabelle
  imports Complex_Main
begin

section \<open>Python numbers\<close>

text \<open>The exceptions that the modelled code can raise outside a \<open>try\<close> block.\<close>

datatype error = KeyError string | ZeroDivisionError | OverflowError

text \<open>
  A Python \<open>float\<close> is an IEEE 754 binary64 value: a finite value, given by the
  rational number it denotes, an infinity or a NaN. The two zeros are one value here:
  the program never tells them apart.
\<close>

datatype pyfloat = Finite rat | PInf | NInf | NaN

definition pow2 :: "int \<Rightarrow> rat" where
  "pow2 e = (if 0 \<le> e then 2 ^ nat e else 1 / 2 ^ nat (- e))"

text \<open>The nearest integer, a tie to the even one.\<close>

definition round_half_even :: "rat \<Rightarrow> int" where
  "round_half_even y =
     (let f = \<lfloor>y\<rfloor>; d = y - of_int f in
      if d < 1 / 2 then f else if 1 / 2 < d then f + 1 else if even f then f else f + 1)"

text \<open>
  The exponent \<open>e\<close> of the binade of a magnitude \<open>a\<close>, where \<open>pow2 e \<le> a < pow2 (e + 1)\<close>,
  not below the least exponent of a normal number; 1024 beyond the largest binade.
\<close>

definition binade :: "rat \<Rightarrow> int" where
  "binade a =
     (case find (\<lambda>e. a < pow2 (e + 1)) [- 1022..1023] of
        Some e \<Rightarrow> e
      | None \<Rightarrow> 1024)"

text \<open>
  Rounding of a rational to binary64, to nearest with ties to even: a multiple of the
  unit in the last place of the binade, with 53 bits, or an infinity on overflow.
\<close>

definition fl :: "rat \<Rightarrow> pyfloat" where
  "fl x =
     (let a = \<bar>x\<bar>;
          q = pow2 (binade a - 52);
          r = of_int (round_half_even (a / q)) * q
      in
        if pow2 1024 \<le> r then (if 0 < x then PInf else NInf)
        else Finite (if 0 < x then r else - r))"

definition fsign :: "pyfloat \<Rightarrow> rat" where
  "fsign x = (case x of Finite r \<Rightarrow> sgn r | PInf \<Rightarrow> 1 | NInf \<Rightarrow> - 1 | NaN \<Rightarrow> 0)"

definition signed_inf :: "rat \<Rightarrow> pyfloat" where
  "signed_inf s = (if s = 0 then NaN else if 0 < s then PInf else NInf)"

text \<open>\<open>x * y\<close>\<close>

fun fmul :: "pyfloat \<Rightarrow> pyfloat \<Rightarrow> pyfloat" where
  "fmul NaN y = NaN"
| "fmul x NaN = NaN"
| "fmul (Finite a) (Finite b) = fl (a * b)"
| "fmul x y = signed_inf (fsign x * fsign y)"

text \<open>\<open>x / y\<close>, which raises when the divisor is zero.\<close>

fun fdiv :: "pyfloat \<Rightarrow> pyfloat \<Rightarrow> error + pyfloat" where
  "fdiv x (Finite b) =
     (if b = 0 then Inl ZeroDivisionError
      else case x of
             Finite a \<Rightarrow> Inr (fl (a / b))
           | NaN \<Rightarrow> Inr NaN
           | _ \<Rightarrow> Inr (signed_inf (fsign x * sgn b)))"
| "fdiv x NaN = Inr NaN"
| "fdiv (Finite a) y = Inr (Finite 0)"
| "fdiv x y = Inr NaN"

text \<open>\<open>x + y\<close> and \<open>x - y\<close>\<close>

fun fadd :: "pyfloat \<Rightarrow> pyfloat \<Rightarrow> pyfloat" where
  "fadd NaN y = NaN"
| "fadd x NaN = NaN"
| "fadd (Finite a) (Finite b) = fl (a + b)"
| "fadd (Finite a) y = y"
| "fadd x (Finite b) = x"
| "fadd x y = (if x = y then x else NaN)"

fun fneg :: "pyfloat \<Rightarrow> pyfloat" where
  "fneg (Finite a) = Finite (- a)"
| "fneg PInf = NInf"
| "fneg NInf = PInf"
| "fneg NaN = NaN"

definition fsub :: "pyfloat \<Rightarrow> pyfloat \<Rightarrow> pyfloat" where
  "fsub x y = fadd x (fneg y)"

text \<open>\<open>x < y\<close> and \<open>x == y\<close>: no comparison with a NaN holds.\<close>

fun flt :: "pyfloat \<Rightarrow> pyfloat \<Rightarrow> bool" where
  "flt NaN y = False"
| "flt x NaN = False"
| "flt (Finite a) (Finite b) = (a < b)"
| "flt x PInf = (x \<noteq> PInf)"
| "flt NInf y = (y \<noteq> NInf)"
| "flt x y = False"

fun feq :: "pyfloat \<Rightarrow> pyfloat \<Rightarrow> bool" where
  "feq NaN y = False"
| "feq x NaN = False"
| "feq x y = (x = y)"

text \<open>\<open>x <= y\<close>\<close>

definition fle :: "pyfloat \<Rightarrow> pyfloat \<Rightarrow> bool" where
  "fle x y = (flt x y \<or> feq x y)"

text \<open>
  \<open>min(a, b)\<close> and \<open>max(a, b)\<close>: the first argument, unless the second is smaller
  (larger).
\<close>

definition pymin :: "pyfloat \<Rightarrow> pyfloat \<Rightarrow> pyfloat" where
  "pymin a b = (if flt b a then b else a)"

definition pymax :: "pyfloat \<Rightarrow> pyfloat \<Rightarrow> pyfloat" where
  "pymax a b = (if flt a b then b else a)"

text \<open>
  \<open>round(x, 4)\<close>: the value of the double is rounded to a multiple of \<open>1/10000\<close>, a
  tie to the even one, and the result to a double; an infinity or a NaN is returned as it is.
\<close>

definition round4 :: "pyfloat \<Rightarrow> pyfloat" where
  "round4 x =
     (case x of
        Finite r \<Rightarrow> fl (of_int (round_half_even (r * 10000)) / 10000)
      | _ \<Rightarrow> x)"

text \<open>
  A number of a decoded JSON document is a Python \<open>int\<close> or a \<open>float\<close>.
  \<open>float(v)\<close> rounds an \<open>int\<close> to the nearest double and raises an
  \<open>OverflowError\<close> when there is none.
\<close>

datatype jnum = JInt int | JFloat pyfloat

definition py_float :: "jnum \<Rightarrow> error + pyfloat" where
  "py_float v =
     (case v of
        JFloat x \<Rightarrow> Inr x
      | JInt i \<Rightarrow>
          (case fl (of_int i) of
             Finite r \<Rightarrow> Inr (Finite r)
           | _ \<Rightarrow> Inl OverflowError))"

section \<open>Data model\<close>

text \<open>
  A trade record is the dictionary that the data API returns for one fill. The keys the
  program reads are the fields of the record below; a key that is absent from the
  dictionary is \<open>None\<close>. Values that are present have the type the feed documents:
  the timestamp is an integer number of seconds, size and price are numbers (an integer
  or a float, as the JSON decoder delivers them), the other keys hold strings. A key that
  is present with \<open>null\<close> or with a value of another type has no value here.
  The keys \<open>size\<close>, \<open>price\<close> and \<open>side\<close> carry the prefix \<open>trade_\<close> here, since
  \<open>OrderArgs\<close> has fields of the same names.
\<close>

record trade =
  timestamp :: "int option"
  trade_size :: "jnum option"
  trade_price :: "jnum option"
  trade_side :: "string option"
  asset :: "string option"
  conditionId :: "string option"
  slug :: "string option"
  outcome :: "string option"
  title :: "string option"

text \<open>The constants \<open>BUY\<close> and \<open>SELL\<close> of the order builder, and its \<open>OrderArgs\<close>.\<close>

datatype order_side = BUY | SELL

record OrderArgs =
  token_id :: string
  price :: pyfloat
  size_arg :: pyfloat
  side :: order_side

text \<open>
  The module-level constants of \<open>config.py\<close> that the copy logic reads. An integer
  constant stands here as the double of the same value: the program uses these constants
  in float arithmetic and comparisons only, which are exact on small integers.
\<close>

record config =
  ALLOCATION_PERCENT :: pyfloat
  MAX_TRADE_USDC :: pyfloat
  MIN_TRADE_USDC :: pyfloat
  SLIPPAGE_TOLERANCE_PERCENT :: pyfloat
  MIN_TRADE_SIZE :: pyfloat

definition repo_config :: config where
  "repo_config =
     \<lparr>ALLOCATION_PERCENT = fl (15 / 100), MAX_TRADE_USDC = Finite 4,
      MIN_TRADE_USDC = Finite 0, SLIPPAGE_TOLERANCE_PERCENT = Finite 0,
      MIN_TRADE_SIZE = Finite 5\<rparr>"

section \<open>Trade listener\<close>

record TradeListener =
  target_address :: string
  last_trade_timestamp :: int

text \<open>\<open>__init__\<close>: the second argument is the value of \<open>int(time.time())\<close>.\<close>

definition TradeListener_init :: "string \<Rightarrow> int \<Rightarrow> TradeListener" where
  "TradeListener_init address now =
     \<lparr>target_address = address, last_trade_timestamp = now\<rparr>"

text \<open>
  What one HTTP exchange with the feed yields: \<open>requests.get\<close> raises (connection
  error, timeout), or it returns a response with a status code and a body, which is the
  decoded list of trade records. A response that carries no body (the status codes 1xx,
  204 and 304) has no records to pair with.
\<close>

datatype http_result = RequestException | Response nat "trade list"

text \<open>
  \<open>response.raise_for_status()\<close> raises an \<open>HTTPError\<close>, a \<open>RequestException\<close>,
  for the status codes 4xx and 5xx, as the comment in the source says.
\<close>

definition raise_for_status :: "nat \<Rightarrow> bool" where
  "raise_for_status code = (400 \<le> code \<and> code < 600)"

text \<open>\<open>trade.get("timestamp", 0)\<close>\<close>

definition trade_ts :: "trade \<Rightarrow> int" where
  "trade_ts t = (case timestamp t of None \<Rightarrow> 0 | Some ts \<Rightarrow> ts)"

text \<open>
  The \<open>for\<close> loop of \<open>_fetch_new_trades\<close>, with the list \<open>new_trades\<close> as
  accumulator; the \<open>else\<close> branch is the \<open>break\<close>.
\<close>

fun scan_trades :: "int \<Rightarrow> trade list \<Rightarrow> trade list \<Rightarrow> trade list" where
  "scan_trades mark [] new_trades = new_trades"
| "scan_trades mark (t # trades) new_trades =
     (if trade_ts t > mark then scan_trades mark trades (new_trades @ [t])
      else new_trades)"

definition fetch_new_trades :: "TradeListener \<Rightarrow> http_result \<Rightarrow> trade list" where
  "fetch_new_trades self r =
     (case r of
        RequestException \<Rightarrow> []
      | Response code trades \<Rightarrow>
          if raise_for_status code then []
          else rev (scan_trades (last_trade_timestamp self) trades []))"

text \<open>
  The callback is a bound method: it takes its own state \<open>'c\<close> (the exchange client),
  and returns a result and the new state, or raises.
\<close>

type_synonym ('c, 'a) callback = "'c \<Rightarrow> trade \<Rightarrow> error + ('a \<times> 'c)"

text \<open>\<open>for trade in new_trades: copy_trader_callback(trade)\<close>\<close>

fun run_callbacks :: "('c, 'a) callback \<Rightarrow> 'c \<Rightarrow> trade list \<Rightarrow> error + ('a list \<times> 'c)" where
  "run_callbacks cb c [] = Inr ([], c)"
| "run_callbacks cb c (t # ts) =
     (case cb c t of
        Inl e \<Rightarrow> Inl e
      | Inr (a, c') \<Rightarrow>
          (case run_callbacks cb c' ts of
             Inl e \<Rightarrow> Inl e
           | Inr (as, c'') \<Rightarrow> Inr (a # as, c'')))"

text \<open>
  One iteration of the \<open>while True\<close> loop of \<open>run_polling_loop\<close>, without the sleep.
  An exception of the callback leaves the loop before the timestamp is assigned.
\<close>

definition poll_cycle ::
  "('c, 'a) callback \<Rightarrow> TradeListener \<times> 'c \<Rightarrow> http_result \<Rightarrow> error + ('a list \<times> TradeListener \<times> 'c)" where
  "poll_cycle cb st r =
     (case st of (self, c) \<Rightarrow>
        let new_trades = fetch_new_trades self r in
        if new_trades \<noteq> [] then
          (case run_callbacks cb c new_trades of
             Inl e \<Rightarrow> Inl e
           | Inr (outs, c') \<Rightarrow>
               Inr (outs,
                    self\<lparr>last_trade_timestamp :=
                      (case timestamp (last new_trades) of
                         None \<Rightarrow> last_trade_timestamp self
                       | Some ts \<Rightarrow> ts)\<rparr>,
                    c'))
        else Inr ([], self, c))"

text \<open>
  The loop itself never returns; the list of HTTP results is the prefix of the feed's
  answers that has been consumed, one per iteration.
\<close>

fun run_polling_loop ::
  "('c, 'a) callback \<Rightarrow> TradeListener \<times> 'c \<Rightarrow> http_result list \<Rightarrow> error + ('a list \<times> TradeListener \<times> 'c)" where
  "run_polling_loop cb st [] = Inr ([], st)"
| "run_polling_loop cb st (r # rs) =
     (case poll_cycle cb st r of
        Inl e \<Rightarrow> Inl e
      | Inr (outs, st') \<Rightarrow>
          (case run_polling_loop cb st' rs of
             Inl e \<Rightarrow> Inl e
           | Inr (outs', st'') \<Rightarrow> Inr (outs @ outs', st'')))"

section \<open>Copy trader\<close>

text \<open>\<open>sub in s\<close> for Python strings.\<close>

fun is_prefix :: "string \<Rightarrow> string \<Rightarrow> bool" where
  "is_prefix [] s = True"
| "is_prefix (c # cs) [] = False"
| "is_prefix (c # cs) (d # ds) = (c = d \<and> is_prefix cs ds)"

fun str_contains :: "string \<Rightarrow> string \<Rightarrow> bool" where
  "str_contains sub [] = (sub = [])"
| "str_contains sub (c # cs) = (is_prefix sub (c # cs) \<or> str_contains sub cs)"

text \<open>\<open>float(d.get(key, 0))\<close>\<close>

definition get_float0 :: "jnum option \<Rightarrow> error + pyfloat" where
  "get_float0 v = (case v of None \<Rightarrow> py_float (JInt 0) | Some x \<Rightarrow> py_float x)"

text \<open>
  \<open>_apply_filters\<close>. The conversions by \<open>float\<close> can raise; the function has no
  \<open>try\<close> block.
\<close>

definition apply_filters :: "config \<Rightarrow> trade \<Rightarrow> error + bool" where
  "apply_filters cfg original_trade =
     (case trade_size original_trade of
        None \<Rightarrow> Inr False
      | Some sz \<Rightarrow>
         (case py_float sz of
            Inl e \<Rightarrow> Inl e
          | Inr s \<Rightarrow>
              if feq s (Finite 0) then Inr False
              else
               (case get_float0 (trade_size original_trade) of
                  Inl e \<Rightarrow> Inl e
                | Inr s' \<Rightarrow>
               (case get_float0 (trade_price original_trade) of
                  Inl e \<Rightarrow> Inl e
                | Inr p \<Rightarrow>
               (let trade_amount_usdc = fmul s' p in
                  if flt trade_amount_usdc (MIN_TRADE_USDC cfg) then Inr False
                  else if (case slug original_trade of
                             None \<Rightarrow> False
                           | Some s \<Rightarrow> s \<noteq> [] \<and> str_contains ''4h'' s) then Inr False
                  else Inr True)))))"

text \<open>
  The exchange client, as the program uses it: \<open>create_order\<close> followed by
  \<open>post_order\<close>, in a state \<open>'g\<close> of the exchange. Either call may raise; otherwise
  the response carries a truth value under \<open>success\<close>.
\<close>

datatype gateway_reply = Gateway_raised | Gateway_response bool

type_synonym 'g client = "'g \<Rightarrow> OrderArgs \<Rightarrow> gateway_reply \<times> 'g"

text \<open>
  What a call of \<open>execute_copy_trade\<close> that returns has done: it returned after the
  filters, it returned after the amount check, or it built an order and handed it to the
  client, whose exception the \<open>except\<close> clause catches.
\<close>

datatype outcome = Skipped | Too_small | Submitted OrderArgs gateway_reply

definition execute_copy_trade :: "config \<Rightarrow> 'g client \<Rightarrow> 'g \<Rightarrow> trade \<Rightarrow> error + (outcome \<times> 'g)" where
  "execute_copy_trade cfg client g original_trade =
     (case apply_filters cfg original_trade of
        Inl e \<Rightarrow> Inl e
      | Inr passed \<Rightarrow>
       (if \<not> passed then Inr (Skipped, g)
        else
       (case trade_price original_trade of
          None \<Rightarrow> Inl (KeyError ''price'')
        | Some price_value \<Rightarrow>
       (case py_float price_value of
          Inl e \<Rightarrow> Inl e
        | Inr original_price \<Rightarrow>
       (case trade_side original_trade of
          None \<Rightarrow> Inl (KeyError ''side'')
        | Some original_side \<Rightarrow>
       (case get_float0 (trade_size original_trade) of
          Inl e \<Rightarrow> Inl e
        | Inr original_size \<Rightarrow>
       (let original_amount_usdc = fmul original_price original_size in
       (case asset original_trade of
          None \<Rightarrow> Inl (KeyError ''asset'')
        | Some token \<Rightarrow>
       (case conditionId original_trade of
          None \<Rightarrow> Inl (KeyError ''conditionId'')
        | Some cond \<Rightarrow>
       (let copied_amount_usdc =
              pymin (fmul original_amount_usdc (ALLOCATION_PERCENT cfg)) (MAX_TRADE_USDC cfg)
        in
          if flt copied_amount_usdc (MIN_TRADE_USDC cfg) then Inr (Too_small, g)
          else
           (case fdiv copied_amount_usdc original_price of
              Inl e \<Rightarrow> Inl e
            | Inr tokens \<Rightarrow>
           (let copied_size_tokens = pymax tokens (MIN_TRADE_SIZE cfg);
                copy_side = (if original_side = ''BUY'' then BUY else SELL);
                order_price =
                  (if copy_side = BUY
                   then round4 (fmul original_price
                          (fadd (Finite 1) (SLIPPAGE_TOLERANCE_PERCENT cfg)))
                   else round4 (fmul original_price
                          (fsub (Finite 1) (SLIPPAGE_TOLERANCE_PERCENT cfg))));
                order_args =
                  \<lparr>token_id = token, price = order_price,
                   size_arg = copied_size_tokens, side = copy_side\<rparr>
            in
             (case client g order_args of
                (reply, g') \<Rightarrow> Inr (Submitted order_args reply, g'))))))))))))))"

text \<open>
  A complete trade record of the feed, at a given time, with a given side; its price and
  size are the doubles nearest to the given numbers.
\<close>

definition feed_trade :: "int \<Rightarrow> string \<Rightarrow> rat \<Rightarrow> rat \<Rightarrow> trade" where
  "feed_trade ts sd p sz =
     \<lparr>timestamp = Some ts, trade_size = Some (JFloat (fl sz)), trade_price = Some (JFloat (fl p)),
      trade_side = Some sd, asset = Some ''token'', conditionId = Some ''market'',
      slug = Some ''some-market'', outcome = Some ''Yes'', title = Some ''Some market''\<rparr>"

text \<open>The feed's order: no record is followed by one with a larger timestamp.\<close>

definition newest_first :: "trade list \<Rightarrow> bool" where
  "newest_first trades = sorted_wrt (\<lambda>a b. trade_ts b \<le> trade_ts a) trades"







section \<open>The scan of the feed\<close>

lemma scan_trades_takeWhile:
  "scan_trades mark trades acc = acc @ takeWhile (\<lambda>t. mark < trade_ts t) trades"
  by (induction trades arbitrary: acc) auto

lemma fetch_new_trades_ok:
  "\<not> raise_for_status code \<Longrightarrow>
   fetch_new_trades self (Response code trades) =
     rev (takeWhile (\<lambda>t. last_trade_timestamp self < trade_ts t) trades)"
  by (simp add: fetch_new_trades_def scan_trades_takeWhile)

lemma takeWhile_filter_desc:
  "newest_first trades \<Longrightarrow>
   takeWhile (\<lambda>t. mark < trade_ts t) trades = filter (\<lambda>t. mark < trade_ts t) trades"
proof (induction trades)
  case Nil
  then show ?case by simp
next
  case (Cons t trades)
  show ?case
  proof (cases "mark < trade_ts t")
    case True
    with Cons show ?thesis by (simp add: newest_first_def)
  next
    case False
    with Cons.prems have "\<forall>u \<in> set trades. \<not> mark < trade_ts u"
      by (auto simp: newest_first_def)
    then have "filter (\<lambda>t. mark < trade_ts t) trades = []"
      by (simp add: filter_empty_conv)
    with False show ?thesis by simp
  qed
qed

lemma sorted_rev_filter_desc:
  assumes "newest_first trades"
  shows "sorted (map trade_ts (rev (filter P trades)))"
proof -
  from assms have "sorted_wrt (\<lambda>a b. trade_ts b \<le> trade_ts a) (filter P trades)"
    unfolding newest_first_def by (rule sorted_wrt_filter)
  then have "sorted_wrt (\<lambda>a b. trade_ts a \<le> trade_ts b) (rev (filter P trades))"
    by (simp add: sorted_wrt_rev)
  then show ?thesis by (simp add: sorted_map)
qed

lemma takeWhile_boundary:
  "\<forall>x \<in> set new. P x \<Longrightarrow> \<not> P old \<Longrightarrow> takeWhile P (new @ old # rest) = new"
  by (induction new) auto

text \<open>
  Claim C1. When the request succeeds and the feed is sorted newest first,
  \<open>_fetch_new_trades\<close> returns exactly the records whose timestamp is greater than
  \<open>last_trade_timestamp\<close>, in the reverse of the feed's order, which is ascending in
  the timestamp. Whatever follows the first record that is not newer than the mark has no
  influence on the result: the scan returns the records before it. For the feed with
  timestamps 5, 4, 3, 2, 1 and the mark 2 the result has the timestamps 3, 4, 5.
\<close>

theorem fetch_new_trades_sorted_feed:
  assumes "\<not> raise_for_status code"
  shows "(newest_first trades \<longrightarrow>
            fetch_new_trades self (Response code trades) =
              rev (filter (\<lambda>t. last_trade_timestamp self < trade_ts t) trades) \<and>
            sorted (map trade_ts (fetch_new_trades self (Response code trades)))) \<and>
         ((\<forall>t \<in> set new. last_trade_timestamp self < trade_ts t) \<and>
            trade_ts old \<le> last_trade_timestamp self \<longrightarrow>
            fetch_new_trades self (Response code (new @ old # rest)) = rev new) \<and>
         map trade_ts
           (fetch_new_trades (self\<lparr>last_trade_timestamp := 2\<rparr>)
              (Response code (map (\<lambda>ts. feed_trade ts ''BUY'' (1 / 5) 100) [5, 4, 3, 2, 1]))) =
           [3, 4, 5]"
proof (intro conjI impI)
  assume nf: "newest_first trades"
  show eq: "fetch_new_trades self (Response code trades) =
      rev (filter (\<lambda>t. last_trade_timestamp self < trade_ts t) trades)"
    using assms takeWhile_filter_desc [OF nf, of "last_trade_timestamp self"]
    by (simp add: fetch_new_trades_ok)
  show "sorted (map trade_ts (fetch_new_trades self (Response code trades)))"
    unfolding eq using nf by (rule sorted_rev_filter_desc)
next
  assume "(\<forall>t \<in> set new. last_trade_timestamp self < trade_ts t) \<and>
            trade_ts old \<le> last_trade_timestamp self"
  then have "takeWhile (\<lambda>t. last_trade_timestamp self < trade_ts t) (new @ old # rest) = new"
    by (intro takeWhile_boundary) auto
  with assms show "fetch_new_trades self (Response code (new @ old # rest)) = rev new"
    by (simp add: fetch_new_trades_ok)
next
  show "map trade_ts
           (fetch_new_trades (self\<lparr>last_trade_timestamp := 2\<rparr>)
              (Response code (map (\<lambda>ts. feed_trade ts ''BUY'' (1 / 5) 100) [5, 4, 3, 2, 1]))) =
           [3, 4, 5]"
    using assms by (simp add: fetch_new_trades_def trade_ts_def feed_trade_def)
qed

theorem fetch_new_trades_sorted_feed_witness:
  "\<not> raise_for_status 200 \<and>
   newest_first (map (\<lambda>ts. feed_trade ts ''SELL'' (1 / 2) 10) [9, 8, 8, 7, 3]) \<and>
   map trade_ts
     (fetch_new_trades \<lparr>target_address = ''0xabc'', last_trade_timestamp = 7\<rparr>
        (Response 200 (map (\<lambda>ts. feed_trade ts ''SELL'' (1 / 2) 10) [9, 8, 8, 7, 3]))) =
     [8, 8, 9]"
proof -
  let ?feed = "map (\<lambda>ts. feed_trade ts ''SELL'' (1 / 2) 10) [9, 8, 8, 7, 3]"
  let ?self = "\<lparr>target_address = ''0xabc'', last_trade_timestamp = 7\<rparr>"
  have st: "\<not> raise_for_status 200"
    by (simp add: raise_for_status_def)
  have nf: "newest_first ?feed"
    by (simp add: newest_first_def trade_ts_def feed_trade_def)
  have "fetch_new_trades ?self (Response 200 ?feed) =
          rev (filter (\<lambda>t. last_trade_timestamp ?self < trade_ts t) ?feed)"
    using fetch_new_trades_sorted_feed [OF st, of ?feed ?self] nf by blast
  then have "map trade_ts (fetch_new_trades ?self (Response 200 ?feed)) = [8, 8, 9]"
    by (simp add: trade_ts_def feed_trade_def)
  with st nf show ?thesis by blast
qed

lemma fetch_new_trades_takeWhile:
  "fetch_new_trades self r = [] \<or>
   (\<exists>code trades. r = Response code trades \<and> \<not> raise_for_status code \<and>
      fetch_new_trades self r =
        rev (takeWhile (\<lambda>t. last_trade_timestamp self < trade_ts t) trades))"
  by (cases r) (simp_all add: fetch_new_trades_def scan_trades_takeWhile)

lemma fetch_new_trades_newer:
  assumes "t \<in> set (fetch_new_trades self r)"
  shows "last_trade_timestamp self < trade_ts t"
proof -
  from assms fetch_new_trades_takeWhile [of self r]
  obtain trades where "t \<in> set (takeWhile (\<lambda>t. last_trade_timestamp self < trade_ts t) trades)"
    by auto
  then show ?thesis by (rule set_takeWhileD [THEN conjunct2])
qed

lemma trade_ts_timestamp:
  "0 \<le> mark \<Longrightarrow> mark < trade_ts t \<Longrightarrow> timestamp t = Some (trade_ts t)"
  by (cases "timestamp t") (simp_all add: trade_ts_def)

lemma poll_cycle_Inr:
  assumes "poll_cycle cb (self, c) r = Inr (outs, self', c')"
  shows "(fetch_new_trades self r = [] \<and> outs = [] \<and> self' = self \<and> c' = c) \<or>
         (fetch_new_trades self r \<noteq> [] \<and>
          run_callbacks cb c (fetch_new_trades self r) = Inr (outs, c') \<and>
          self' = self\<lparr>last_trade_timestamp :=
                    (case timestamp (last (fetch_new_trades self r)) of
                       None \<Rightarrow> last_trade_timestamp self
                     | Some ts \<Rightarrow> ts)\<rparr>)"
  using assms
  by (auto simp: poll_cycle_def Let_def split: if_splits sum.splits prod.splits)

lemma poll_cycle_mono:
  assumes "poll_cycle cb (self, c) r = Inr (outs, self', c')"
  shows "last_trade_timestamp self \<le> last_trade_timestamp self'"
proof -
  from poll_cycle_Inr [OF assms] show ?thesis
  proof
    assume "fetch_new_trades self r = [] \<and> outs = [] \<and> self' = self \<and> c' = c"
    then show ?thesis by simp
  next
    assume a: "fetch_new_trades self r \<noteq> [] \<and>
          run_callbacks cb c (fetch_new_trades self r) = Inr (outs, c') \<and>
          self' = self\<lparr>last_trade_timestamp :=
                    (case timestamp (last (fetch_new_trades self r)) of
                       None \<Rightarrow> last_trade_timestamp self
                     | Some ts \<Rightarrow> ts)\<rparr>"
    then have "last (fetch_new_trades self r) \<in> set (fetch_new_trades self r)"
      by simp
    then have "last_trade_timestamp self < trade_ts (last (fetch_new_trades self r))"
      by (rule fetch_new_trades_newer)
    with a show ?thesis
      by (cases "timestamp (last (fetch_new_trades self r))") (simp_all add: trade_ts_def)
  qed
qed

lemma run_polling_loop_mono:
  "run_polling_loop cb (self, c) rs = Inr (outs, self', c') \<Longrightarrow>
   last_trade_timestamp self \<le> last_trade_timestamp self'"
proof (induction rs arbitrary: self c outs)
  case Nil
  then show ?case by simp
next
  case (Cons r rs)
  from Cons.prems obtain o1 s1 c1 o2 where
    1: "poll_cycle cb (self, c) r = Inr (o1, s1, c1)" and
    2: "run_polling_loop cb (s1, c1) rs = Inr (o2, self', c')"
    by (auto split: sum.splits prod.splits)
  from poll_cycle_mono [OF 1] Cons.IH [OF 2] show ?case by simp
qed

lemma newest_first_last_max:
  assumes "newest_first trades" "t \<in> set (takeWhile P trades)"
  shows "trade_ts t \<le> trade_ts (last (rev (takeWhile P trades)))"
proof (cases trades)
  case Nil
  with assms show ?thesis by simp
next
  case (Cons u rest)
  with assms have pu: "P u" by (auto split: if_splits)
  with Cons have l: "last (rev (takeWhile P trades)) = u" by simp
  from assms(2) have "t \<in> set trades" by (rule set_takeWhileD [THEN conjunct1])
  with Cons assms(1) have "trade_ts t \<le> trade_ts u" by (auto simp: newest_first_def)
  with l show ?thesis by simp
qed

lemma run_polling_loop_skip:
  "poll_cycle cb st r = Inr ([], st) \<Longrightarrow>
   run_polling_loop cb st (r # rs) = run_polling_loop cb st rs"
  by (simp split: sum.splits prod.splits)

text \<open>
  Claim C4, as amended. When the request raises a \<open>RequestException\<close>, because
  the transport failed or because the status code is 4xx or 5xx, \<open>_fetch_new_trades\<close>
  returns the empty list; the iteration of the polling loop ends without an error, calls
  the callback for no trade and leaves the listener and \<open>last_trade_timestamp\<close> as
  they were, and the loop goes on with the next iteration from the same state.
\<close>

theorem failed_fetch_yields_nothing:
  assumes "r = RequestException \<or> (\<exists>code trades. r = Response code trades \<and> raise_for_status code)"
  shows "fetch_new_trades self r = [] \<and>
         poll_cycle cb (self, c) r = Inr ([], self, c) \<and>
         run_polling_loop cb (self, c) (r # rs) = run_polling_loop cb (self, c) rs"
proof -
  from assms have 1: "fetch_new_trades self r = []"
    by (auto simp: fetch_new_trades_def)
  then have 2: "poll_cycle cb (self, c) r = Inr ([], self, c)"
    by (simp add: poll_cycle_def)
  from 1 2 run_polling_loop_skip [OF 2] show ?thesis by simp
qed

theorem failed_fetch_yields_nothing_witness:
  "raise_for_status 503 \<and>
   fetch_new_trades \<lparr>target_address = ''0xabc'', last_trade_timestamp = 2\<rparr>
     (Response 503 [feed_trade 5 ''BUY'' (1 / 5) 100]) = [] \<and>
   poll_cycle (\<lambda>c t. Inr (t, c)) (\<lparr>target_address = ''0xabc'', last_trade_timestamp = 2\<rparr>, ())
     (Response 503 [feed_trade 5 ''BUY'' (1 / 5) 100]) =
     Inr ([], \<lparr>target_address = ''0xabc'', last_trade_timestamp = 2\<rparr>, ())"
proof -
  have st: "raise_for_status 503"
    by (simp add: raise_for_status_def)
  then have "Response 503 [feed_trade 5 ''BUY'' (1 / 5) 100] = RequestException \<or>
      (\<exists>code trades. Response 503 [feed_trade 5 ''BUY'' (1 / 5) 100] = Response code trades \<and>
         raise_for_status code)"
    by simp
  from failed_fetch_yields_nothing [OF this,
      of "\<lparr>target_address = ''0xabc'', last_trade_timestamp = 2\<rparr>" "\<lambda>c t. Inr (t, c)" "()" "[]"] st
  show ?thesis by simp
qed

text \<open>
  A status code outside 2xx that is neither 4xx nor 5xx does not raise: with the code
  300, which is no redirect that \<open>requests\<close> follows and which carries a body, and
  a body that holds a record newer than the mark, the record is returned.
\<close>

theorem non_2xx_status_counterexample:
  "fetch_new_trades \<lparr>target_address = ''0xabc'', last_trade_timestamp = 2\<rparr>
     (Response 300 [feed_trade 5 ''BUY'' (1 / 5) 100]) = [feed_trade 5 ''BUY'' (1 / 5) 100]"
  by (simp add: fetch_new_trades_def raise_for_status_def trade_ts_def feed_trade_def)

section \<open>The timestamp of the last trade\<close>

text \<open>
  Claim C5. \<open>__init__\<close> sets \<open>last_trade_timestamp\<close> to the current time. An
  iteration of the polling loop that completes never decreases it, and neither do any
  number of further iterations. An iteration that finds no new trade (the feed failed or
  had nothing new) leaves the listener unchanged. When it finds new trades, and the mark
  is not negative, the mark becomes the timestamp of the last trade returned, which is
  greater than the old mark; for a feed sorted newest first no returned trade has a
  larger timestamp than that one.
\<close>

theorem last_trade_timestamp_monotone:
  assumes "poll_cycle cb (self, c) r = Inr (outs, self', c')"
  shows "last_trade_timestamp (TradeListener_init address now) = now \<and>
         last_trade_timestamp self \<le> last_trade_timestamp self' \<and>
         (fetch_new_trades self r = [] \<longrightarrow> self' = self) \<and>
         (fetch_new_trades self r \<noteq> [] \<and> 0 \<le> last_trade_timestamp self \<longrightarrow>
            timestamp (last (fetch_new_trades self r)) = Some (last_trade_timestamp self') \<and>
            last_trade_timestamp self < last_trade_timestamp self') \<and>
         (r = Response code trades \<and> newest_first trades \<longrightarrow>
            (\<forall>t \<in> set (fetch_new_trades self r).
               trade_ts t \<le> trade_ts (last (fetch_new_trades self r)))) \<and>
         (run_polling_loop cb (self', c') rs = Inr (outs', self'', c'') \<longrightarrow>
            last_trade_timestamp self \<le> last_trade_timestamp self'')"
proof (intro conjI impI)
  show "last_trade_timestamp (TradeListener_init address now) = now"
    by (simp add: TradeListener_init_def)
  show m: "last_trade_timestamp self \<le> last_trade_timestamp self'"
    using assms by (rule poll_cycle_mono)
  show "self' = self" if "fetch_new_trades self r = []"
    using poll_cycle_Inr [OF assms] that by simp
  {
    assume a: "fetch_new_trades self r \<noteq> [] \<and> 0 \<le> last_trade_timestamp self"
    let ?l = "last (fetch_new_trades self r)"
    from a have "?l \<in> set (fetch_new_trades self r)" by simp
    then have n: "last_trade_timestamp self < trade_ts ?l"
      by (rule fetch_new_trades_newer)
    from a n have ts: "timestamp ?l = Some (trade_ts ?l)"
      by (intro trade_ts_timestamp [of "last_trade_timestamp self"]) simp_all
    with a poll_cycle_Inr [OF assms] have "last_trade_timestamp self' = trade_ts ?l"
      by auto
    with n ts show "timestamp ?l = Some (last_trade_timestamp self')"
      and "last_trade_timestamp self < last_trade_timestamp self'"
      by simp_all
  }
  show "\<forall>t \<in> set (fetch_new_trades self r).
               trade_ts t \<le> trade_ts (last (fetch_new_trades self r))"
    if "r = Response code trades \<and> newest_first trades"
  proof (cases "raise_for_status code")
    case True
    with that show ?thesis by (simp add: fetch_new_trades_def)
  next
    case False
    with that show ?thesis
      by (auto simp: fetch_new_trades_ok intro: newest_first_last_max)
  qed
  show "last_trade_timestamp self \<le> last_trade_timestamp self''"
    if "run_polling_loop cb (self', c') rs = Inr (outs', self'', c'')"
    using m run_polling_loop_mono [OF that] by simp
qed

lemma poll_cycle_example:
  "poll_cycle (\<lambda>c t. Inr (trade_ts t, c))
     (\<lparr>target_address = ''0xabc'', last_trade_timestamp = 2\<rparr>, ())
     (Response 200 (map (\<lambda>ts. feed_trade ts ''BUY'' (1 / 5) 100) [5, 4, 3, 2, 1])) =
   Inr ([3, 4, 5], \<lparr>target_address = ''0xabc'', last_trade_timestamp = 5\<rparr>, ())"
  by (simp add: poll_cycle_def fetch_new_trades_def raise_for_status_def trade_ts_def
      feed_trade_def)

theorem last_trade_timestamp_monotone_witness:
  "poll_cycle (\<lambda>c t. Inr (trade_ts t, c))
     (\<lparr>target_address = ''0xabc'', last_trade_timestamp = 2\<rparr>, ())
     (Response 200 (map (\<lambda>ts. feed_trade ts ''BUY'' (1 / 5) 100) [5, 4, 3, 2, 1])) =
   Inr ([3, 4, 5], \<lparr>target_address = ''0xabc'', last_trade_timestamp = 5\<rparr>, ()) \<and>
   fetch_new_trades \<lparr>target_address = ''0xabc'', last_trade_timestamp = 2\<rparr>
     (Response 200 (map (\<lambda>ts. feed_trade ts ''BUY'' (1 / 5) 100) [5, 4, 3, 2, 1])) \<noteq> [] \<and>
   timestamp (last (fetch_new_trades \<lparr>target_address = ''0xabc'', last_trade_timestamp = 2\<rparr>
     (Response 200 (map (\<lambda>ts. feed_trade ts ''BUY'' (1 / 5) 100) [5, 4, 3, 2, 1])))) = Some 5 \<and>
   last_trade_timestamp \<lparr>target_address = ''0xabc'', last_trade_timestamp = 2\<rparr> <
   last_trade_timestamp \<lparr>target_address = ''0xabc'', last_trade_timestamp = 5\<rparr>"
proof -
  let ?self = "\<lparr>target_address = ''0xabc'', last_trade_timestamp = 2\<rparr>"
  let ?r = "Response 200 (map (\<lambda>ts. feed_trade ts ''BUY'' (1 / 5) 100) [5, 4, 3, 2, 1])"
  have ne: "fetch_new_trades ?self ?r \<noteq> [] \<and> 0 \<le> last_trade_timestamp ?self"
    by (simp add: fetch_new_trades_def raise_for_status_def trade_ts_def feed_trade_def)
  from last_trade_timestamp_monotone [OF poll_cycle_example] ne
  have "timestamp (last (fetch_new_trades ?self ?r)) =
          Some (last_trade_timestamp \<lparr>target_address = ''0xabc'', last_trade_timestamp = 5\<rparr>) \<and>
        last_trade_timestamp ?self <
          last_trade_timestamp \<lparr>target_address = ''0xabc'', last_trade_timestamp = 5\<rparr>"
    by blast
  with ne poll_cycle_example show ?thesis by simp
qed

text \<open>
  Claim C6. After an iteration of the polling loop that got a successful response and
  completed, starting from a mark that is not negative (it is the Unix time at startup or
  a later timestamp), a request that returns the same list of records yields no trade,
  and the next iteration calls the callback for nothing and changes nothing. When the
  feed was sorted newest first, no trade that the iteration yielded is yielded by the
  next request, whatever it returns.
\<close>

theorem repoll_unchanged_feed_empty:
  assumes "poll_cycle cb (self, c) (Response code trades) = Inr (outs, self', c')"
    and "\<not> raise_for_status code"
    and "0 \<le> last_trade_timestamp self"
  shows "fetch_new_trades self' (Response code' trades) = [] \<and>
         poll_cycle cb (self', c') (Response code' trades) = Inr ([], self', c') \<and>
         (newest_first trades \<longrightarrow>
            (\<forall>t \<in> set (fetch_new_trades self (Response code trades)).
               t \<notin> set (fetch_new_trades self' r)))"
proof -
  let ?P = "\<lambda>m t. m < trade_ts t"
  let ?new = "fetch_new_trades self (Response code trades)"
  have new: "?new = rev (takeWhile (?P (last_trade_timestamp self)) trades)"
    using assms(2) by (rule fetch_new_trades_ok)
  have mark: "last_trade_timestamp self' = trade_ts (last ?new)" if "?new \<noteq> []"
  proof -
    from that have "last ?new \<in> set ?new" by simp
    then have "last_trade_timestamp self < trade_ts (last ?new)"
      by (rule fetch_new_trades_newer)
    with assms(3) have "timestamp (last ?new) = Some (trade_ts (last ?new))"
      by (rule trade_ts_timestamp)
    with poll_cycle_Inr [OF assms(1)] that show ?thesis by auto
  qed
  have "takeWhile (?P (last_trade_timestamp self')) trades = []"
  proof (cases "?new = []")
    case True
    with poll_cycle_Inr [OF assms(1)] have "self' = self" by simp
    with True new show ?thesis by simp
  next
    case False
    with new obtain t rest where tr: "trades = t # rest"
      and pt: "last_trade_timestamp self < trade_ts t"
      by (cases trades) (auto split: if_splits)
    then have "last ?new = t"
      using new by simp
    with mark [OF False] tr show ?thesis by simp
  qed
  then have 1: "fetch_new_trades self' (Response code' trades) = []"
    by (simp add: fetch_new_trades_def scan_trades_takeWhile)
  then have 2: "poll_cycle cb (self', c') (Response code' trades) = Inr ([], self', c')"
    by (simp add: poll_cycle_def)
  have 3: "t \<notin> set (fetch_new_trades self' r)" if nf: "newest_first trades" and t: "t \<in> set ?new" for t
  proof
    assume "t \<in> set (fetch_new_trades self' r)"
    then have "last_trade_timestamp self' < trade_ts t"
      by (rule fetch_new_trades_newer)
    moreover from t have "?new \<noteq> []" by auto
    then have "last_trade_timestamp self' = trade_ts (last ?new)" by (rule mark)
    moreover from t new have "t \<in> set (takeWhile (?P (last_trade_timestamp self)) trades)"
      by simp
    with nf have "trade_ts t \<le> trade_ts (last (rev (takeWhile (?P (last_trade_timestamp self)) trades)))"
      by (rule newest_first_last_max)
    ultimately show False using new by simp
  qed
  from 1 2 3 show ?thesis by blast
qed

theorem repoll_unchanged_feed_empty_witness:
  "\<not> raise_for_status 200 \<and>
   0 \<le> last_trade_timestamp \<lparr>target_address = ''0xabc'', last_trade_timestamp = 2\<rparr> \<and>
   fetch_new_trades \<lparr>target_address = ''0xabc'', last_trade_timestamp = 5\<rparr>
     (Response 200 (map (\<lambda>ts. feed_trade ts ''BUY'' (1 / 5) 100) [5, 4, 3, 2, 1])) = []"
proof -
  have st: "\<not> raise_for_status 200"
    by (simp add: raise_for_status_def)
  have nn: "0 \<le> last_trade_timestamp \<lparr>target_address = ''0xabc'', last_trade_timestamp = 2\<rparr>"
    by simp
  from repoll_unchanged_feed_empty [OF poll_cycle_example st nn, of 200] st nn
  show ?thesis by simp
qed

text \<open>
  Claim C10. A record without the key \<open>timestamp\<close> counts as having the timestamp 0.
  When the listener was created at a time that is not negative, then after any number of
  completed iterations of the polling loop no such record is among the trades that
  \<open>_fetch_new_trades\<close> returns, whatever the feed answers.
\<close>

theorem missing_timestamp_never_yielded:
  assumes "0 \<le> now"
    and "run_polling_loop cb (TradeListener_init address now, c) rs = Inr (outs, self, c')"
    and "timestamp t = None"
  shows "trade_ts t = 0 \<and> t \<notin> set (fetch_new_trades self r)"
proof -
  from assms(3) have z: "trade_ts t = 0"
    by (simp add: trade_ts_def)
  from run_polling_loop_mono [OF assms(2)] assms(1)
  have "0 \<le> last_trade_timestamp self"
    by (simp add: TradeListener_init_def)
  with z fetch_new_trades_newer [of t self r] show ?thesis
    by auto
qed

theorem missing_timestamp_never_yielded_witness:
  "(0::int) \<le> 1700000000 \<and>
   timestamp ((feed_trade 1700000100 ''BUY'' (1 / 5) 100)\<lparr>timestamp := None\<rparr>) = None \<and>
   (feed_trade 1700000100 ''BUY'' (1 / 5) 100)\<lparr>timestamp := None\<rparr> \<notin>
     set (fetch_new_trades (TradeListener_init ''0xabc'' 1700000000)
            (Response 200 [(feed_trade 1700000100 ''BUY'' (1 / 5) 100)\<lparr>timestamp := None\<rparr>]))"
proof -
  have n: "(0::int) \<le> 1700000000" by simp
  have l: "run_polling_loop (\<lambda>c t. Inr (t, c)) (TradeListener_init ''0xabc'' 1700000000, ()) [] =
             Inr ([], TradeListener_init ''0xabc'' 1700000000, ())"
    by simp
  have t: "timestamp ((feed_trade 1700000100 ''BUY'' (1 / 5) 100)\<lparr>timestamp := None\<rparr>) = None"
    by simp
  from missing_timestamp_never_yielded [OF n l t] n t show ?thesis by blast
qed

section \<open>Rounding to a double\<close>

lemma pow2_powi: "pow2 e = 2 powi e"
  by (simp add: pow2_def power_int_def inverse_eq_divide power_one_over)

lemma pow2_mono: "e \<le> e' \<Longrightarrow> pow2 e \<le> pow2 e'"
  by (simp add: pow2_powi power_int_increasing)

lemma pow2_pos: "0 < pow2 e"
  by (simp add: pow2_def)

lemma find_upto_first:
  "i \<le> e \<Longrightarrow> e \<le> j \<Longrightarrow> P e \<Longrightarrow> (\<forall>k. i \<le> k \<and> k < e \<longrightarrow> \<not> P k) \<Longrightarrow>
   find P [i..j] = Some e"
proof (induction "nat (e - i)" arbitrary: i)
  case 0
  then have "i = e" by simp
  with 0 show ?case by (simp add: upto_rec1)
next
  case (Suc n)
  then have lt: "i < e" by linarith
  with Suc.prems have np: "\<not> P i" by simp
  have "find P [i + 1..j] = Some e"
  proof (rule Suc.hyps(1))
    show "n = nat (e - (i + 1))" using Suc.hyps(2) by linarith
    show "i + 1 \<le> e" using lt by simp
    show "e \<le> j" by fact
    show "P e" by fact
    show "\<forall>k. i + 1 \<le> k \<and> k < e \<longrightarrow> \<not> P k" using Suc.prems(4) by simp
  qed
  moreover have "[i..j] = i # [i + 1..j]"
    using lt Suc.prems(2) by (simp add: upto_rec1)
  ultimately show ?case using np by simp
qed


lemma binade_eq:
  assumes "- 1022 \<le> e" and "e \<le> 1023" and "a < pow2 (e + 1)"
    and "e = - 1022 \<or> pow2 e \<le> a"
  shows "binade a = e"
proof -
  have "find (\<lambda>e. a < pow2 (e + 1)) [- 1022..1023] = Some e"
  proof (rule find_upto_first)
    show "\<forall>k. - 1022 \<le> k \<and> k < e \<longrightarrow> \<not> a < pow2 (k + 1)"
    proof (intro allI impI)
      fix k assume k: "- 1022 \<le> k \<and> k < e"
      with assms(4) have "pow2 e \<le> a" by auto
      moreover from k have "pow2 (k + 1) \<le> pow2 e" by (intro pow2_mono) simp
      ultimately show "\<not> a < pow2 (k + 1)" by simp
    qed
  qed (use assms in simp_all)
  then show ?thesis by (simp add: binade_def)
qed

lemma binade_overflow:
  assumes "pow2 1024 \<le> a"
  shows "binade a = 1024"
proof -
  have "\<not> a < pow2 (e + 1)" if "e \<in> set [- 1022..1023]" for e
  proof -
    from that have "e \<le> 1023" by (simp only: set_upto atLeastAtMost_iff)
    then have "pow2 (e + 1) \<le> pow2 1024" by (intro pow2_mono) simp
    with assms show ?thesis by simp
  qed
  then have "find (\<lambda>e. a < pow2 (e + 1)) [- 1022..1023] = None"
    unfolding find_None_iff by blast
  then show ?thesis by (simp add: binade_def)
qed




lemma fl_zero: "fl 0 = Finite 0"
proof -
  have "binade 0 = - 1022"
    by (rule binade_eq) (simp_all add: pow2_pos)
  then show ?thesis
    by (simp add: fl_def round_half_even_def pow2_def)
qed

lemma py_float_zero: "py_float (JInt 0) = Inr (Finite 0)"
  by (simp add: py_float_def fl_zero)


text \<open>
  The binade of a number between \<open>pow2 (- 14)\<close> and \<open>pow2 11\<close>, and of zero, found
  by the simplifier from the bounds.
\<close>

lemmas binade_small =
  binade_eq [of "- 1022"] binade_eq [of "- 14"] binade_eq [of "- 13"]
  binade_eq [of "- 12"] binade_eq [of "- 11"] binade_eq [of "- 10"] binade_eq [of "- 9"]
  binade_eq [of "- 8"] binade_eq [of "- 7"] binade_eq [of "- 6"] binade_eq [of "- 5"]
  binade_eq [of "- 4"] binade_eq [of "- 3"] binade_eq [of "- 2"] binade_eq [of "- 1"]
  binade_eq [of 0] binade_eq [of 1] binade_eq [of 2] binade_eq [of 3] binade_eq [of 4]
  binade_eq [of 5] binade_eq [of 6] binade_eq [of 7] binade_eq [of 8] binade_eq [of 9]
  binade_eq [of 10]

lemma floor_numeral_div:
  "\<lfloor>(numeral a :: rat) / numeral b\<rfloor> = numeral a div numeral b"
  by (metis floor_divide_of_int_eq of_int_numeral)

lemmas fl_eval =
  fl_def binade_small pow2_def round_half_even_def Let_def floor_numeral_div

section \<open>The arithmetic of the examples\<close>

text \<open>
  The doubles nearest to 0.2, 0.9 and 0.15 and the products, quotients and roundings of
  the examples below, each computed from the definition of the rounding.
\<close>

lemma fl_100: "fl 100 = Finite 100"
  by (simp add: fl_eval)

lemma fl_1: "fl 1 = Finite 1"
  by (simp add: fl_eval)


lemma fl_09: "fl (9 / 10) = Finite (8106479329266893 / 9007199254740992)"
  by (simp add: fl_eval)

lemma amount_02: "fmul (fl (1 / 5)) (Finite 100) = Finite 20"
  and amount_02': "fmul (Finite 100) (fl (1 / 5)) = Finite 20"
  by (simp_all add: fl_eval)

lemma copied_02: "fmul (Finite 20) (fl (3 / 20)) = Finite 3"
  by (simp add: fl_eval)

lemma tokens_02: "fdiv (Finite 3) (fl (1 / 5)) = Inr (Finite 15)"
  by (simp add: fl_eval)

lemma round4_02: "round4 (fmul (fl (1 / 5)) (Finite 1)) = fl (1 / 5)"
  by (simp add: fl_eval round4_def)

lemma amount_09: "fmul (fl (9 / 10)) (Finite 100) = Finite 90"
  and amount_09': "fmul (Finite 100) (fl (9 / 10)) = Finite 90"
  by (simp_all add: fl_eval)

lemma copied_09: "fmul (Finite 90) (fl (3 / 20)) = Finite (27 / 2)"
  by (simp add: fl_eval)

lemma tokens_09:
  "fdiv (Finite 4) (fl (9 / 10)) = Inr (Finite (2501999792983609 / 562949953421312))"
  by (simp add: fl_eval)

lemma round4_09: "round4 (fmul (fl (9 / 10)) (Finite 1)) = fl (9 / 10)"
  by (simp add: fl_eval round4_def)

lemma notional_09: "fmul (fl (9 / 10)) (Finite 5) = Finite (9 / 2)"
  by (simp add: fl_eval)

section \<open>The copy order\<close>

lemma fdiv_returns: "p \<noteq> Finite 0 \<Longrightarrow> \<exists>y. fdiv x p = Inr y"
  by (cases p; cases x) simp_all


lemma execute_Submitted:
  assumes "execute_copy_trade cfg client g t = Inr (Submitted args reply, g')"
  shows "\<exists>pv p sd sz tok cond copied tokens.
           apply_filters cfg t = Inr True \<and>
           trade_price t = Some pv \<and> py_float pv = Inr p \<and> trade_side t = Some sd \<and>
           get_float0 (trade_size t) = Inr sz \<and> asset t = Some tok \<and>
           conditionId t = Some cond \<and>
           copied = pymin (fmul (fmul p sz) (ALLOCATION_PERCENT cfg)) (MAX_TRADE_USDC cfg) \<and>
           \<not> flt copied (MIN_TRADE_USDC cfg) \<and> fdiv copied p = Inr tokens \<and>
           args = \<lparr>token_id = tok,
                   price = (if sd = ''BUY''
                            then round4 (fmul p (fadd (Finite 1) (SLIPPAGE_TOLERANCE_PERCENT cfg)))
                            else round4 (fmul p (fsub (Finite 1) (SLIPPAGE_TOLERANCE_PERCENT cfg)))),
                   size_arg = pymax tokens (MIN_TRADE_SIZE cfg),
                   side = (if sd = ''BUY'' then BUY else SELL)\<rparr> \<and>
           client g args = (reply, g')"
  using assms
  by (auto simp: execute_copy_trade_def Let_def
      split: sum.splits option.splits if_splits prod.splits)

lemma execute_copy_trade_eligible:
  assumes "apply_filters cfg t = Inr True"
    and "trade_price t = Some pv" and "py_float pv = Inr p"
    and "trade_size t = Some sv" and "py_float sv = Inr sz"
    and "trade_side t = Some sd" and "asset t = Some tok" and "conditionId t = Some cond"
    and "copied = pymin (fmul (fmul p sz) (ALLOCATION_PERCENT cfg)) (MAX_TRADE_USDC cfg)"
  shows "flt copied (MIN_TRADE_USDC cfg) \<Longrightarrow>
           execute_copy_trade cfg client g t = Inr (Too_small, g)"
    and "\<not> flt copied (MIN_TRADE_USDC cfg) \<Longrightarrow> fdiv copied p = Inr tokens \<Longrightarrow>
         args = \<lparr>token_id = tok,
                 price = (if sd = ''BUY''
                          then round4 (fmul p (fadd (Finite 1) (SLIPPAGE_TOLERANCE_PERCENT cfg)))
                          else round4 (fmul p (fsub (Finite 1) (SLIPPAGE_TOLERANCE_PERCENT cfg)))),
                 size_arg = pymax tokens (MIN_TRADE_SIZE cfg),
                 side = (if sd = ''BUY'' then BUY else SELL)\<rparr> \<Longrightarrow>
         execute_copy_trade cfg client g t =
           Inr (Submitted args (fst (client g args)), snd (client g args))"
  using assms
  by (simp_all add: execute_copy_trade_def get_float0_def Let_def split: prod.splits)



lemma py_float_overflow: "py_float (JInt (2 ^ 1024)) = Inl OverflowError"
  by (simp add: py_float_def fl_def binade_overflow pow2_def round_half_even_def Let_def)

lemma flt_irrefl: "\<not> flt x x"
  by (cases x) simp_all

lemma pymax_not_below: "\<not> flt (pymax a b) b"
  by (simp add: pymax_def flt_irrefl)

lemma not_flt_fle: "\<not> flt a b \<Longrightarrow> a \<noteq> NaN \<Longrightarrow> b \<noteq> NaN \<Longrightarrow> fle b a"
  by (cases a; cases b) (auto simp: fle_def)

lemmas example_facts =
  fl_100 fl_1 fl_zero py_float_zero amount_02 amount_02' copied_02 tokens_02 round4_02
  amount_09 amount_09' copied_09 tokens_09 round4_09 notional_09

lemmas trader_defs =
  execute_copy_trade_def apply_filters_def get_float0_def py_float_def repo_config_def
  feed_trade_def pymin_def pymax_def fsub_def Let_def

lemma filters_02: "apply_filters repo_config (feed_trade ts sd (1 / 5) 100) = Inr True"
  by (simp add: trader_defs example_facts)

lemma filters_09: "apply_filters repo_config (feed_trade ts sd (9 / 10) 100) = Inr True"
  by (simp add: trader_defs example_facts)


lemma sell_example:
  "execute_copy_trade repo_config client g (feed_trade ts ''SELL'' (9 / 10) 100) =
   Inr (Submitted \<lparr>token_id = ''token'', price = fl (9 / 10), size_arg = Finite 5, side = SELL\<rparr>
          (fst (client g
             \<lparr>token_id = ''token'', price = fl (9 / 10), size_arg = Finite 5, side = SELL\<rparr>)),
        snd (client g
             \<lparr>token_id = ''token'', price = fl (9 / 10), size_arg = Finite 5, side = SELL\<rparr>))"
  by (simp add: trader_defs example_facts split: prod.splits)






text \<open>
  Claim C3. With the constants of \<open>config.py\<close>, a record without the key
  \<open>price\<close> and with a size other than zero passes the filters: its amount is 0, which
  is not below \<open>MIN_TRADE_USDC = 0\<close>. The access \<open>original_trade["price"]\<close>
  then raises a \<open>KeyError\<close>, where the claim has the record skipped without an exception.
\<close>

theorem missing_price_raises_KeyError:
  "apply_filters repo_config ((feed_trade 5 ''BUY'' (1 / 5) 100)\<lparr>trade_price := None\<rparr>) =
     Inr True \<and>
   execute_copy_trade repo_config client g
     ((feed_trade 5 ''BUY'' (1 / 5) 100)\<lparr>trade_price := None\<rparr>) = Inl (KeyError ''price'')"
  by (simp add: trader_defs example_facts)

text \<open>
  The other cases of that claim hold: a record without the key \<open>size\<close> or with the
  size zero is skipped by the filter, and so is a record without a price and with a
  finite size when \<open>MIN_TRADE_USDC\<close> is positive.
\<close>

lemma size_absent_or_zero_skipped:
  assumes "trade_size t = None \<or> (\<exists>v. trade_size t = Some v \<and> py_float v = Inr (Finite 0))"
  shows "apply_filters cfg t = Inr False \<and> execute_copy_trade cfg client g t = Inr (Skipped, g)"
  using assms by (auto simp: execute_copy_trade_def apply_filters_def)

lemma price_absent_skipped_if_min_positive:
  assumes "trade_price t = None" and "flt (Finite 0) (MIN_TRADE_USDC cfg)"
    and "trade_size t = Some v" and "py_float v = Inr (Finite s)"
  shows "apply_filters cfg t = Inr False \<and> execute_copy_trade cfg client g t = Inr (Skipped, g)"
  using assms
  by (simp add: execute_copy_trade_def apply_filters_def get_float0_def py_float_zero fl_zero)

text \<open>
  Claim C7. For a record that passes the filters, with a positive price \<open>p\<close>, a size
  \<open>sz\<close> and the keys that the order needs, the amount to copy is
  \<open>min(p * sz * ALLOCATION_PERCENT, MAX_TRADE_USDC)\<close>, in the arithmetic of doubles
  and in the order the program multiplies. If that clamped amount is below
  \<open>MIN_TRADE_USDC\<close> the call returns without an order; otherwise the order handed to
  the client has the size \<open>max(amount / p, MIN_TRADE_SIZE)\<close>. With the allocation 0.15,
  the cap 4, the share floor 5, the price 0.20 and the size 100 the order has 15 shares.
\<close>

theorem copied_size_formula:
  assumes "apply_filters cfg t = Inr True"
    and "trade_price t = Some pv" and "py_float pv = Inr p" and "flt (Finite 0) p"
    and "trade_size t = Some sv" and "py_float sv = Inr sz"
    and "trade_side t \<noteq> None" and "asset t \<noteq> None" and "conditionId t \<noteq> None"
    and "copied = pymin (fmul (fmul p sz) (ALLOCATION_PERCENT cfg)) (MAX_TRADE_USDC cfg)"
  shows "(flt copied (MIN_TRADE_USDC cfg) \<longrightarrow>
            execute_copy_trade cfg client g t = Inr (Too_small, g)) \<and>
         (\<not> flt copied (MIN_TRADE_USDC cfg) \<longrightarrow>
            (\<exists>tokens args reply g'.
               fdiv copied p = Inr tokens \<and>
               execute_copy_trade cfg client g t = Inr (Submitted args reply, g') \<and>
               client g args = (reply, g') \<and>
               size_arg args = pymax tokens (MIN_TRADE_SIZE cfg))) \<and>
         (\<exists>args reply g'.
            execute_copy_trade
              (cfg\<lparr>ALLOCATION_PERCENT := fl (15 / 100), MAX_TRADE_USDC := Finite 4,
                   MIN_TRADE_USDC := Finite 0, MIN_TRADE_SIZE := Finite 5\<rparr>)
              client g (feed_trade ts sd (1 / 5) 100) = Inr (Submitted args reply, g') \<and>
            size_arg args = Finite 15)"
proof -
  from assms(7-9) obtain sd' tok cond where
    f: "trade_side t = Some sd'" "asset t = Some tok" "conditionId t = Some cond"
    by auto
  note eq = execute_copy_trade_eligible
    [OF assms(1,2,3,5,6) f assms(10), where client = client and g = g]
  have 1: "flt copied (MIN_TRADE_USDC cfg) \<longrightarrow>
            execute_copy_trade cfg client g t = Inr (Too_small, g)"
    using eq(1) by simp
  have 2: "\<exists>tokens args reply g'.
               fdiv copied p = Inr tokens \<and>
               execute_copy_trade cfg client g t = Inr (Submitted args reply, g') \<and>
               client g args = (reply, g') \<and>
               size_arg args = pymax tokens (MIN_TRADE_SIZE cfg)"
    if nf: "\<not> flt copied (MIN_TRADE_USDC cfg)"
  proof -
    from assms(4) have "p \<noteq> Finite 0" by auto
    from fdiv_returns [OF this] obtain tokens where d: "fdiv copied p = Inr tokens"
      by blast
    define args where "args =
      \<lparr>token_id = tok,
       price = (if sd' = ''BUY''
                then round4 (fmul p (fadd (Finite 1) (SLIPPAGE_TOLERANCE_PERCENT cfg)))
                else round4 (fmul p (fsub (Finite 1) (SLIPPAGE_TOLERANCE_PERCENT cfg)))),
       size_arg = pymax tokens (MIN_TRADE_SIZE cfg),
       side = (if sd' = ''BUY'' then BUY else SELL)\<rparr>"
    from eq(2) [OF nf d args_def]
    have "execute_copy_trade cfg client g t =
            Inr (Submitted args (fst (client g args)), snd (client g args))" .
    moreover have "size_arg args = pymax tokens (MIN_TRADE_SIZE cfg)"
      by (simp add: args_def)
    moreover have "client g args = (fst (client g args), snd (client g args))"
      by simp
    ultimately show ?thesis using d by blast
  qed
  have 3: "\<exists>args reply g'.
            execute_copy_trade
              (cfg\<lparr>ALLOCATION_PERCENT := fl (15 / 100), MAX_TRADE_USDC := Finite 4,
                   MIN_TRADE_USDC := Finite 0, MIN_TRADE_SIZE := Finite 5\<rparr>)
              client g (feed_trade ts sd (1 / 5) 100) = Inr (Submitted args reply, g') \<and>
            size_arg args = Finite 15"
    by (simp add: execute_copy_trade_def apply_filters_def get_float0_def py_float_def
        feed_trade_def pymin_def pymax_def Let_def example_facts split: prod.splits)
  from 1 2 3 show ?thesis by blast
qed

theorem copied_size_formula_witness:
  "apply_filters repo_config (feed_trade 7 ''SELL'' (9 / 10) 100) = Inr True \<and>
   flt (Finite 0) (fl (9 / 10)) \<and>
   \<not> flt (pymin (fmul (fmul (fl (9 / 10)) (Finite 100)) (ALLOCATION_PERCENT repo_config))
            (MAX_TRADE_USDC repo_config))
        (MIN_TRADE_USDC repo_config) \<and>
   (\<exists>tokens args reply g'.
      fdiv (pymin (fmul (fmul (fl (9 / 10)) (Finite 100)) (ALLOCATION_PERCENT repo_config))
              (MAX_TRADE_USDC repo_config)) (fl (9 / 10)) = Inr tokens \<and>
      execute_copy_trade repo_config (\<lambda>g a. (Gateway_response True, Suc g)) 0
        (feed_trade 7 ''SELL'' (9 / 10) 100) = Inr (Submitted args reply, g') \<and>
      size_arg args = pymax tokens (MIN_TRADE_SIZE repo_config) \<and>
      size_arg args = Finite 5)"
proof -
  let ?t = "feed_trade 7 ''SELL'' (9 / 10) 100"
  let ?copied = "pymin (fmul (fmul (fl (9 / 10)) (Finite 100)) (ALLOCATION_PERCENT repo_config))
              (MAX_TRADE_USDC repo_config)"
  have p: "trade_price ?t = Some (JFloat (fl (9 / 10)))"
    and pf: "py_float (JFloat (fl (9 / 10))) = Inr (fl (9 / 10))"
    and s: "trade_size ?t = Some (JFloat (fl 100))"
    and sf: "py_float (JFloat (fl 100)) = Inr (Finite 100)"
    and o: "trade_side ?t \<noteq> None" "asset ?t \<noteq> None" "conditionId ?t \<noteq> None"
    by (simp_all add: feed_trade_def py_float_def fl_100)
  have pos: "flt (Finite 0) (fl (9 / 10))"
    by (simp add: fl_09)
  have c: "?copied = Finite 4"
    by (simp add: repo_config_def pymin_def example_facts)
  then have m: "\<not> flt ?copied (MIN_TRADE_USDC repo_config)"
    by (simp add: repo_config_def)
  from copied_size_formula [OF filters_09 p pf pos s sf o refl,
      of "\<lambda>g a. (Gateway_response True, Suc g)" 0] m
  obtain tokens args reply g' where
    r: "fdiv ?copied (fl (9 / 10)) = Inr tokens"
       "execute_copy_trade repo_config (\<lambda>g a. (Gateway_response True, Suc g)) 0 ?t =
          Inr (Submitted args reply, g')"
       "size_arg args = pymax tokens (MIN_TRADE_SIZE repo_config)"
    by blast
  from r(1) c have "tokens = Finite (2501999792983609 / 562949953421312)"
    by (simp add: tokens_09)
  with r(3) have "size_arg args = Finite 5"
    by (simp add: repo_config_def pymax_def)
  with r filters_09 pos m show ?thesis by blast
qed

text \<open>
  Claim C8. Every order handed to the client has the size \<open>max(tokens, MIN_TRADE_SIZE)\<close>,
  which is not below \<open>MIN_TRADE_SIZE\<close> (and at least \<open>MIN_TRADE_SIZE\<close>, unless one
  of the two is a NaN): the floor is applied after the clamp, with no condition and no
  check after it. With the constants of \<open>config.py\<close>, a fill of 100
  shares at 0.90 passes the filters, and the order that the client receives is for 5
  shares at 0.90, of value 4.50, above \<open>MAX_TRADE_USDC = 4\<close>.
\<close>

theorem share_floor_exceeds_cap:
  "(execute_copy_trade cfg client g t = Inr (Submitted args reply, g') \<longrightarrow>
      (\<exists>tokens. size_arg args = pymax tokens (MIN_TRADE_SIZE cfg)) \<and>
      \<not> flt (size_arg args) (MIN_TRADE_SIZE cfg) \<and>
      (size_arg args \<noteq> NaN \<and> MIN_TRADE_SIZE cfg \<noteq> NaN \<longrightarrow>
         fle (MIN_TRADE_SIZE cfg) (size_arg args)) \<and>
      client g args = (reply, g')) \<and>
   apply_filters repo_config (feed_trade ts ''BUY'' (9 / 10) 100) = Inr True \<and>
   execute_copy_trade repo_config client g (feed_trade ts ''BUY'' (9 / 10) 100) =
     Inr (Submitted \<lparr>token_id = ''token'', price = fl (9 / 10), size_arg = Finite 5, side = BUY\<rparr>
            (fst (client g
               \<lparr>token_id = ''token'', price = fl (9 / 10), size_arg = Finite 5, side = BUY\<rparr>)),
          snd (client g
               \<lparr>token_id = ''token'', price = fl (9 / 10), size_arg = Finite 5, side = BUY\<rparr>)) \<and>
   flt (MAX_TRADE_USDC repo_config)
     (fmul (price \<lparr>token_id = ''token'', price = fl (9 / 10), size_arg = Finite 5, side = BUY\<rparr>)
        (size_arg \<lparr>token_id = ''token'', price = fl (9 / 10), size_arg = Finite 5, side = BUY\<rparr>))"
proof (intro conjI impI)
  assume "execute_copy_trade cfg client g t = Inr (Submitted args reply, g')"
  from execute_Submitted [OF this] obtain tokens where
    a: "size_arg args = pymax tokens (MIN_TRADE_SIZE cfg)" "client g args = (reply, g')"
    by auto
  from a(1) show "\<exists>tokens. size_arg args = pymax tokens (MIN_TRADE_SIZE cfg)" by blast
  from a(1) show nb: "\<not> flt (size_arg args) (MIN_TRADE_SIZE cfg)"
    by (simp add: pymax_not_below)
  show "fle (MIN_TRADE_SIZE cfg) (size_arg args)"
    if "size_arg args \<noteq> NaN \<and> MIN_TRADE_SIZE cfg \<noteq> NaN"
    using nb that by (simp add: not_flt_fle)
  from a(2) show "client g args = (reply, g')" .
next
  show "apply_filters repo_config (feed_trade ts ''BUY'' (9 / 10) 100) = Inr True"
    by (rule filters_09)
  show "execute_copy_trade repo_config client g (feed_trade ts ''BUY'' (9 / 10) 100) =
     Inr (Submitted \<lparr>token_id = ''token'', price = fl (9 / 10), size_arg = Finite 5, side = BUY\<rparr>
            (fst (client g
               \<lparr>token_id = ''token'', price = fl (9 / 10), size_arg = Finite 5, side = BUY\<rparr>)),
          snd (client g
               \<lparr>token_id = ''token'', price = fl (9 / 10), size_arg = Finite 5, side = BUY\<rparr>))"
    by (simp add: trader_defs example_facts split: prod.splits)
  show "flt (MAX_TRADE_USDC repo_config)
     (fmul (price \<lparr>token_id = ''token'', price = fl (9 / 10), size_arg = Finite 5, side = BUY\<rparr>)
        (size_arg \<lparr>token_id = ''token'', price = fl (9 / 10), size_arg = Finite 5, side = BUY\<rparr>))"
    by (simp add: repo_config_def notional_09)
qed

lemma sell_example_rejected:
  "execute_copy_trade repo_config (\<lambda>g a. (Gateway_response False, g)) ()
     (feed_trade 7 ''SELL'' (9 / 10) 100) =
   Inr (Submitted \<lparr>token_id = ''token'', price = fl (9 / 10), size_arg = Finite 5, side = SELL\<rparr>
          (Gateway_response False), ())"
  by (simp add: sell_example)

theorem share_floor_exceeds_cap_witness:
  "execute_copy_trade repo_config (\<lambda>g a. (Gateway_response False, g)) ()
     (feed_trade 7 ''SELL'' (9 / 10) 100) =
   Inr (Submitted \<lparr>token_id = ''token'', price = fl (9 / 10), size_arg = Finite 5, side = SELL\<rparr>
          (Gateway_response False), ()) \<and>
   \<not> flt (size_arg \<lparr>token_id = ''token'', price = fl (9 / 10), size_arg = Finite 5, side = SELL\<rparr>)
        (MIN_TRADE_SIZE repo_config) \<and>
   fle (MIN_TRADE_SIZE repo_config)
     (size_arg \<lparr>token_id = ''token'', price = fl (9 / 10), size_arg = Finite 5, side = SELL\<rparr>)"
proof -
  let ?args = "\<lparr>token_id = ''token'', price = fl (9 / 10), size_arg = Finite 5, side = SELL\<rparr>"
  have n: "size_arg ?args \<noteq> NaN \<and> MIN_TRADE_SIZE repo_config \<noteq> NaN"
    by (simp add: repo_config_def)
  from share_floor_exceeds_cap [of repo_config "\<lambda>g a. (Gateway_response False, g)" "()"
      "feed_trade 7 ''SELL'' (9 / 10) 100" ?args "Gateway_response False" "()"]
    sell_example_rejected n
  show ?thesis by blast
qed

text \<open>
  Claim C9. Whenever an order is handed to the client, its side is \<open>BUY\<close> if the
  record's side is the string \<open>BUY\<close>, and \<open>SELL\<close> if it is the string
  \<open>SELL\<close>.
\<close>

theorem copy_side_mirrors_original:
  assumes "execute_copy_trade cfg client g t = Inr (Submitted args reply, g')"
  shows "(trade_side t = Some ''BUY'' \<longrightarrow> side args = BUY) \<and>
         (trade_side t = Some ''SELL'' \<longrightarrow> side args = SELL)"
  using execute_Submitted [OF assms] by auto

theorem copy_side_mirrors_original_witness:
  "trade_side (feed_trade 7 ''SELL'' (9 / 10) 100) = Some ''SELL'' \<and>
   execute_copy_trade repo_config (\<lambda>g a. (Gateway_response False, g)) ()
     (feed_trade 7 ''SELL'' (9 / 10) 100) =
   Inr (Submitted \<lparr>token_id = ''token'', price = fl (9 / 10), size_arg = Finite 5, side = SELL\<rparr>
          (Gateway_response False), ()) \<and>
   side \<lparr>token_id = ''token'', price = fl (9 / 10), size_arg = Finite 5, side = SELL\<rparr> = SELL"
proof -
  have s: "trade_side (feed_trade 7 ''SELL'' (9 / 10) 100) = Some ''SELL''"
    by (simp add: feed_trade_def)
  from copy_side_mirrors_original [OF sell_example_rejected] s sell_example_rejected
  show ?thesis by blast
qed

end
